theory Spec2Isabelle
  imports Complex_Main "HOL-Library.Word"
begin

section \<open>Data model of the construction dashboard\<close>

text \<open>
  The program keeps a list of project dictionaries, pickled as a whole into
  \<^verbatim>\<open>projects.pkl\<close>.  A project dictionary becomes a record, the nested
  dictionaries (tasks, claims, the entries of \<^verbatim>\<open>elements_progress\<close>) become
  records of their own, and the fixed choices of the select boxes become datatypes.

  Numbers: Python's \<^verbatim>\<open>int\<close> and \<^verbatim>\<open>float\<close> values are modelled as exact
  rationals.  Binary rounding error of \<^verbatim>\<open>float\<close> arithmetic and the IEEE special
  values (\<^verbatim>\<open>inf\<close>, \<^verbatim>\<open>nan\<close>) are outside this model.
\<close>

record date =
  year :: nat
  month :: nat
  day :: nat

text \<open>Comparison of two \<^verbatim>\<open>datetime.date\<close> values: lexicographic on year, month, day.\<close>

definition date_less :: "date \<Rightarrow> date \<Rightarrow> bool" where
  "date_less a b =
     (year a < year b \<or>
      (year a = year b \<and> (month a < month b \<or> (month a = month b \<and> day a < day b))))"

datatype task_status = Not_Started | In_Progress | Completed

datatype claim_status = Pending | Approved | Rejected

record task =
  task_name :: string
  t_status :: task_status
  assignee :: string
  deadline :: date

record claim =
  amount :: rat
  date :: date
  status :: claim_status

record element =
  progress :: rat
  weight :: rat

text \<open>
  The project dictionary of \<^verbatim>\<open>register_project\<close>.  The key \<^verbatim>\<open>"id"\<close> is the
  field \<open>id'\<close> and the key \<^verbatim>\<open>"progress"\<close> is the field \<open>progress'\<close> (the plain
  names are taken).  \<^verbatim>\<open>elements_progress\<close> is a dictionary from element names to
  \<^verbatim>\<open>{progress, weight}\<close>; it is kept as an association list, of which the code
  only reads the number of entries and the values.
\<close>

record project =
  name :: string
  id' :: string
  client :: string
  start_date :: string
  end_date :: string
  budget :: rat
  progress' :: rat
  task_list :: "task list"
  interim_claims :: "claim list"
  reports :: "string list"
  elements_progress :: "(string \<times> element) list"

section \<open>Progress calculation\<close>

text \<open>
  Python's \<^verbatim>\<open>round(x, 2)\<close>: the nearest multiple of 1/100, a tie going to the
  even neighbour.
\<close>

definition round_half_even :: "rat \<Rightarrow> int" where
  "round_half_even x =
     (let f = \<lfloor>x\<rfloor>; d = x - of_int f
      in if d < 1 / 2 then f
         else if 1 / 2 < d then f + 1
         else if even f then f else f + 1)"

definition py_round2 :: "rat \<Rightarrow> rat" where
  "py_round2 x = of_int (round_half_even (x * 100)) / 100"





section \<open>State of one run of the script\<close>

text \<open>
  Exceptions that the modelled code can raise, and the calls to the user interface whose
  content the code decides.  Messages are kept structured: formatting a number into an
  f-string is not modelled.
\<close>

datatype value_error = Time_data string | End_before_start

datatype py_exception = KeyError string | IndexError | ValueError value_error

datatype success =
    Project_registered string
  | Task_added string string
  | Claim_added rat string
  | Status_updated claim_status
  | Document_uploaded string

datatype failure =
    Invalid_budget
  | Input_error value_error
  | Unexpected_error py_exception
  | Exceeds_budget

datatype st_call =
    St_subheader string
  | St_write string
  | St_write_tasks "task list"
  | St_write_claims "claim list"
  | St_success success
  | St_error failure
  | St_download_button string string
  | St_image string string

text \<open>
  \<open>projects\<close> is the list object that the functions receive and mutate in place,
  \<open>pkl\<close> the content of \<^verbatim>\<open>projects.pkl\<close> (\<open>None\<close>: no such file), \<open>files\<close> the
  files below \<^verbatim>\<open>project_docs\<close> by path, \<open>ui\<close> the calls made so far.  Writing a file
  is taken to succeed; the directories that \<^verbatim>\<open>os.makedirs\<close> creates are not tracked.
\<close>

record world =
  projects :: "project list"
  pkl :: "project list option"
  files :: "string \<rightharpoonup> 8 word list"
  ui :: "st_call list"

definition st :: "st_call \<Rightarrow> world \<Rightarrow> world" where
  "st c w = w\<lparr>ui := ui w @ [c]\<rparr>"

text \<open>\<^verbatim>\<open>load_projects()\<close> and \<^verbatim>\<open>save_projects(projects)\<close>, lines 11 to 22.\<close>

definition load_projects :: "world \<Rightarrow> project list" where
  "load_projects w = (case pkl w of None \<Rightarrow> [] | Some ps \<Rightarrow> ps)"

definition save_projects :: "world \<Rightarrow> world" where
  "save_projects w = w\<lparr>pkl := Some (projects w)\<rparr>"

section \<open>Registration\<close>

text \<open>\<^verbatim>\<open>date.isoformat()\<close>: \<^verbatim>\<open>YYYY-MM-DD\<close>, for the years 1 to 9999 of a Python date.\<close>

definition digit :: "nat \<Rightarrow> char" where
  "digit n = ''0123456789'' ! (n mod 10)"

definition isoformat :: "date \<Rightarrow> string" where
  "isoformat d =
     [digit (year d div 1000), digit (year d div 100), digit (year d div 10), digit (year d)]
     @ ''-'' @ [digit (month d div 10), digit (month d)]
     @ ''-'' @ [digit (day d div 10), digit (day d)]"

text \<open>
  \<^verbatim>\<open>register_project(projects, inputs)\<close>, lines 37 to 77.  \<open>inputs\<close> is the dictionary
  of form fields.  The two library parsers are parameters: \<open>strptime s\<close> is
  \<^verbatim>\<open>datetime.strptime(s, "%Y-%m-%d").date()\<close> and \<open>float s\<close> is \<^verbatim>\<open>float(s)\<close>, each
  \<open>None\<close> where Python raises \<^verbatim>\<open>ValueError\<close>.

  \<open>register_try\<close> is the body of the outer \<^verbatim>\<open>try\<close>: \<open>Inl\<close> is an exception that
  reaches the outer handlers, raised before anything was mutated.  The inner
  \<^verbatim>\<open>try\<close> around the budget catches its \<^verbatim>\<open>ValueError\<close>s on the spot, reports
  and returns.
\<close>

definition register_try ::
  "(string \<Rightarrow> date option) \<Rightarrow> (string \<Rightarrow> rat option) \<Rightarrow> world \<Rightarrow> (string \<rightharpoonup> string)
    \<Rightarrow> py_exception + world" where
  "register_try strptime float w inputs =
     (case inputs ''Project Name'' of None \<Rightarrow> Inl (KeyError ''Project Name'')
      | Some project_name \<Rightarrow>
     (case inputs ''Project ID'' of None \<Rightarrow> Inl (KeyError ''Project ID'')
      | Some project_id \<Rightarrow>
     (case inputs ''Client Name'' of None \<Rightarrow> Inl (KeyError ''Client Name'')
      | Some client_name \<Rightarrow>
     (case inputs ''Start Date'' of None \<Rightarrow> Inl (KeyError ''Start Date'')
      | Some start_text \<Rightarrow>
     (case strptime start_text of None \<Rightarrow> Inl (ValueError (Time_data start_text))
      | Some start_date' \<Rightarrow>
     (case inputs ''End Date'' of None \<Rightarrow> Inl (KeyError ''End Date'')
      | Some end_text \<Rightarrow>
     (case strptime end_text of None \<Rightarrow> Inl (ValueError (Time_data end_text))
      | Some end_date' \<Rightarrow>
     if date_less end_date' start_date' then Inl (ValueError End_before_start)
     else
     (case inputs ''Budget (RM)'' of None \<Rightarrow> Inl (KeyError ''Budget (RM)'')
      | Some budget_text \<Rightarrow>
     (case float budget_text of None \<Rightarrow> Inr (st (St_error Invalid_budget) w)
      | Some parsed \<Rightarrow>
     if parsed \<le> 0 then Inr (st (St_error Invalid_budget) w)
     else
       let budget' = py_round2 parsed;
           project = \<lparr>name = project_name, id' = project_id, client = client_name,
                      start_date = isoformat start_date', end_date = isoformat end_date',
                      budget = budget', progress' = 0, task_list = [], interim_claims = [],
                      reports = [], elements_progress = []\<rparr>;
           w1 = w\<lparr>projects := projects w @ [project]\<rparr>;
           w2 = save_projects w1
       in Inr (st (St_success (Project_registered project_name)) w2))))))))))"

definition register_project ::
  "(string \<Rightarrow> date option) \<Rightarrow> (string \<Rightarrow> rat option) \<Rightarrow> world \<Rightarrow> (string \<rightharpoonup> string)
    \<Rightarrow> world" where
  "register_project strptime float w inputs =
     (case register_try strptime float w inputs of
        Inr w' \<Rightarrow> w'
      | Inl (ValueError ve) \<Rightarrow> st (St_error (Input_error ve)) w
      | Inl e \<Rightarrow> st (St_error (Unexpected_error e)) w)"

section \<open>Task management\<close>

text \<open>
  The values that the input widgets return in one run of the script.  A button is
  \<open>True\<close> in the run that follows its click.  A widget is created once per matching
  project and the model hands each of them the same values.
\<close>

record task_widgets =
  task_name' :: string
  task_status' :: task_status
  assignee' :: string
  task_deadline' :: date
  add_task :: bool

text \<open>
  \<^verbatim>\<open>manage_tasks(projects, project_id)\<close>, lines 92 to 118.  The \<^verbatim>\<open>for\<close> loop runs
  over the positions of the list; \<open>manage_tasks_body\<close> is the block under the
  \<^verbatim>\<open>if\<close>, for the project at position \<open>i\<close>.
\<close>

definition manage_tasks_body :: "task_widgets \<Rightarrow> nat \<Rightarrow> world \<Rightarrow> world" where
  "manage_tasks_body f i w =
     (let w1 = st (St_subheader ''Manage Tasks'') w;
          w2 = (if add_task f then
                  (let project = projects w1 ! i;
                       task = \<lparr>task_name = task_name' f, t_status = task_status' f,
                               assignee = assignee' f, deadline = task_deadline' f\<rparr>;
                       w' = w1\<lparr>projects :=
                               (projects w1)[i := project\<lparr>task_list := task_list project @ [task]\<rparr>]\<rparr>
                   in st (St_success (Task_added (task_name' f) (name project))) (save_projects w'))
                else w1);
          w3 = st (St_subheader ''Current Tasks'') w2;
          project = projects w3 ! i
      in if task_list project \<noteq> [] then st (St_write_tasks (task_list project)) w3
         else st (St_write ''No tasks available yet.'') w3)"

fun manage_tasks_loop :: "task_widgets \<Rightarrow> string \<Rightarrow> nat list \<Rightarrow> world \<Rightarrow> world" where
  "manage_tasks_loop f project_id [] w = w"
| "manage_tasks_loop f project_id (i # js) w =
     manage_tasks_loop f project_id js
       (if id' (projects w ! i) = project_id then manage_tasks_body f i w else w)"

definition manage_tasks :: "task_widgets \<Rightarrow> world \<Rightarrow> string \<Rightarrow> world" where
  "manage_tasks f w project_id = manage_tasks_loop f project_id [0..<length (projects w)] w"

section \<open>Interim claims\<close>

text \<open>
  \<open>claim_to_update\<close> is what the select box over \<^verbatim>\<open>range(len(interim_claims))\<close>
  returns: a position, or \<open>None\<close> when there is nothing to select.
\<close>

record claims_widgets =
  claim_amount :: rat
  claim_date :: date
  claim_status :: claim_status
  add_claim :: bool
  claim_to_update :: "nat option"
  updated_status :: claim_status
  update_status :: bool

text \<open>Adding a claim to the project at position \<open>i\<close>: lines 131 to 138.\<close>

definition add_interim_claim :: "claims_widgets \<Rightarrow> nat \<Rightarrow> world \<Rightarrow> world" where
  "add_interim_claim f i w =
     (let project = projects w ! i
      in if budget project < claim_amount f then st (St_error Exceeds_budget) w
         else
           let claim = \<lparr>amount = claim_amount f, date = claim_date f, status = claim_status f\<rparr>;
               project1 = project\<lparr>interim_claims := interim_claims project @ [claim]\<rparr>;
               project2 = project1\<lparr>budget := budget project1 - claim_amount f\<rparr>;
               w' = w\<lparr>projects := (projects w)[i := project2]\<rparr>
           in st (St_success (Claim_added (claim_amount f) (name project))) (save_projects w'))"

text \<open>
  Overwriting the status of the claim at position \<open>j\<close>: lines 154 to 156.  A position
  outside the list raises \<^verbatim>\<open>IndexError\<close>, which nothing catches: the result is then the
  exception and the state it leaves behind.
\<close>

definition update_claim_status ::
  "claims_widgets \<Rightarrow> nat \<Rightarrow> nat \<Rightarrow> world \<Rightarrow> py_exception \<times> world + world" where
  "update_claim_status f i j w =
     (let project = projects w ! i
      in if j < length (interim_claims project) then
           let c = interim_claims project ! j;
               project1 = project\<lparr>interim_claims :=
                            (interim_claims project)[j := c\<lparr>status := updated_status f\<rparr>]\<rparr>;
               w' = w\<lparr>projects := (projects w)[i := project1]\<rparr>
           in Inr (st (St_success (Status_updated (updated_status f))) (save_projects w'))
         else Inl (IndexError, w))"

text \<open>\<^verbatim>\<open>manage_interim_claims(projects, project_id)\<close>, lines 122 to 156.\<close>

definition manage_interim_claims_body ::
  "claims_widgets \<Rightarrow> nat \<Rightarrow> world \<Rightarrow> py_exception \<times> world + world" where
  "manage_interim_claims_body f i w =
     (let w1 = st (St_subheader ''Manage Interim Claims'') w;
          w2 = (if add_claim f then add_interim_claim f i w1 else w1);
          w3 = st (St_subheader ''Interim Claims'') w2;
          project = projects w3 ! i;
          w4 = (if interim_claims project \<noteq> [] then st (St_write_claims (interim_claims project)) w3
                else st (St_write ''No claims available yet.'') w3);
          w5 = st (St_subheader ''Update Claim Status'') w4
      in case claim_to_update f of
           None \<Rightarrow> Inr w5
         | Some j \<Rightarrow> if update_status f then update_claim_status f i j w5 else Inr w5)"

fun manage_interim_claims_loop ::
  "claims_widgets \<Rightarrow> string \<Rightarrow> nat list \<Rightarrow> world \<Rightarrow> py_exception \<times> world + world" where
  "manage_interim_claims_loop f project_id [] w = Inr w"
| "manage_interim_claims_loop f project_id (i # js) w =
     (if id' (projects w ! i) = project_id then
        (case manage_interim_claims_body f i w of
           Inl e \<Rightarrow> Inl e
         | Inr w' \<Rightarrow> manage_interim_claims_loop f project_id js w')
      else manage_interim_claims_loop f project_id js w)"

definition manage_interim_claims ::
  "claims_widgets \<Rightarrow> world \<Rightarrow> string \<Rightarrow> py_exception \<times> world + world" where
  "manage_interim_claims f w project_id =
     manage_interim_claims_loop f project_id [0..<length (projects w)] w"

text \<open>The sum that \<^verbatim>\<open>display_total_claims\<close> shows, line 161.\<close>

definition total_claims :: "project \<Rightarrow> rat" where
  "total_claims project = sum_list (map amount (interim_claims project))"

section \<open>Documents\<close>

record uploaded_file =
  file_name :: string
  file_type :: string
  file_buffer :: "8 word list"

text \<open>
  \<^verbatim>\<open>upload_project_document(projects, project_id, document_file)\<close>, lines 167 to 189.
  With file writes that succeed nothing in the \<^verbatim>\<open>try\<close> raises, so the handler of
  line 188 has no branch here.
\<close>

definition document_path :: "string \<Rightarrow> string \<Rightarrow> string" where
  "document_path project_id document_name = ''project_docs/'' @ project_id @ ''/'' @ document_name"

definition upload_body :: "string \<Rightarrow> uploaded_file \<Rightarrow> nat \<Rightarrow> world \<Rightarrow> world" where
  "upload_body project_id document_file i w =
     (let document_name = file_name document_file;
          path = document_path project_id document_name;
          w1 = w\<lparr>files := (files w)(path \<mapsto> file_buffer document_file)\<rparr>;
          project = projects w1 ! i;
          w2 = w1\<lparr>projects := (projects w1)[i := project\<lparr>reports := reports project @ [path]\<rparr>]\<rparr>;
          w3 = st (St_success (Document_uploaded document_name)) (save_projects w2)
      in if file_type document_file = ''application/pdf'' then
           st (St_download_button ''Download PDF'' document_name) (st (St_write ''**PDF Preview:**'') w3)
         else if take 6 (file_type document_file) = ''image/'' then
           st (St_image path document_name) w3
         else w3)"

fun upload_loop :: "string \<Rightarrow> uploaded_file \<Rightarrow> nat list \<Rightarrow> world \<Rightarrow> world" where
  "upload_loop project_id document_file [] w = w"
| "upload_loop project_id document_file (i # js) w =
     upload_loop project_id document_file js
       (if id' (projects w ! i) = project_id then upload_body project_id document_file i w else w)"

definition upload_project_document :: "world \<Rightarrow> string \<Rightarrow> uploaded_file \<Rightarrow> world" where
  "upload_project_document w project_id document_file =
     upload_loop project_id document_file [0..<length (projects w)] w"

section \<open>Sequences of operations\<close>

text \<open>
  One user action on the dashboard and the state after it.  An \<^verbatim>\<open>IndexError\<close> out of
  the claims page ends that run, and the state is what the run had written until then.
  Every run of \<^verbatim>\<open>main\<close> loads the list that the run before it saved, and every
  mutation is saved at once, so \<open>run\<close> hands the list from one operation to the next.
\<close>

definition result_world :: "py_exception \<times> world + world \<Rightarrow> world" where
  "result_world r = (case r of Inl (e, w') \<Rightarrow> w' | Inr w' \<Rightarrow> w')"




text \<open>
  The quantity that adding a claim moves from the budget to the claims: what is left
  plus what was claimed.  \<open>keeps_ledgers w w'\<close>: from \<open>w\<close> to \<open>w'\<close> no project is
  removed, every project keeps its ledger, and no budget turns negative.
\<close>

definition ledger :: "project \<Rightarrow> rat" where
  "ledger project = budget project + total_claims project"

definition keeps_ledgers :: "world \<Rightarrow> world \<Rightarrow> bool" where
  "keeps_ledgers w w' =
     (length (projects w) \<le> length (projects w') \<and>
      (\<forall>k < length (projects w).
         ledger (projects w' ! k) = ledger (projects w ! k) \<and>
         (0 \<le> budget (projects w ! k) \<longrightarrow> 0 \<le> budget (projects w' ! k))))"

section \<open>Sample data\<close>





text \<open>
  The parsers at the strings used below: \<open>sample_strptime\<close> and \<open>sample_float\<close> agree
  with \<^verbatim>\<open>strptime\<close> and \<^verbatim>\<open>float\<close> on the strings they list and on \<^verbatim>\<open>soon\<close> and
  \<^verbatim>\<open>ten\<close>, which Python rejects as well; no other string is passed to them.
\<close>

definition sample_strptime :: "string \<Rightarrow> date option" where
  "sample_strptime s =
     (if s = ''2024-01-01'' then Some \<lparr>year = 2024, month = 1, day = 1\<rparr>
      else if s = ''2024-06-01'' then Some \<lparr>year = 2024, month = 6, day = 1\<rparr>
      else None)"

definition sample_float :: "string \<Rightarrow> rat option" where
  "sample_float s =
     (if s = ''10000'' then Some 10000
      else if s = ''12.375'' then Some (99 / 8)
      else if s = ''0'' then Some 0
      else None)"

definition form :: "string \<Rightarrow> string \<Rightarrow> string \<Rightarrow> string \<rightharpoonup> string" where
  "form start_text end_text budget_text =
     [''Project Name'' \<mapsto> ''A'', ''Project ID'' \<mapsto> ''P1'', ''Client Name'' \<mapsto> ''Civitas'',
      ''Start Date'' \<mapsto> start_text, ''End Date'' \<mapsto> end_text, ''Budget (RM)'' \<mapsto> budget_text]"


definition project_a :: project where
  "project_a =
     \<lparr>name = ''A'', id' = ''P1'', client = ''Civitas'', start_date = ''2024-01-01'',
      end_date = ''2024-06-01'', budget = 10000, progress' = 0, task_list = [],
      interim_claims = [], reports = [], elements_progress = []\<rparr>"

definition world_a :: world where
  "world_a = \<lparr>projects = [project_a], pkl = Some [project_a], files = Map.empty, ui = []\<rparr>"

definition february :: date where
  "february = \<lparr>year = 2024, month = 2, day = 1\<rparr>"

definition claim_of :: "rat \<Rightarrow> claims_widgets" where
  "claim_of a =
     \<lparr>claim_amount = a, claim_date = february, claim_status = Pending, add_claim = True,
      claim_to_update = None, updated_status = Pending, update_status = False\<rparr>"

definition set_status :: "nat \<Rightarrow> claim_status \<Rightarrow> claims_widgets" where
  "set_status j s =
     \<lparr>claim_amount = 0, claim_date = february, claim_status = Pending, add_claim = False,
      claim_to_update = Some j, updated_status = s, update_status = True\<rparr>"

definition new_task :: task_widgets where
  "new_task =
     \<lparr>task_name' = ''Survey'', task_status' = Not_Started, assignee' = ''Lee'',
      task_deadline' = february, add_task = True\<rparr>"

definition plan_pdf :: "8 word list \<Rightarrow> uploaded_file" where
  "plan_pdf content = \<lparr>file_name = ''plan.pdf'', file_type = ''application/pdf'', file_buffer = content\<rparr>"

section \<open>Rounding\<close>









section \<open>Progress calculation: results\<close>








section \<open>Registration: results\<close>

lemma register_try_error:
  "register_try strptime float w inputs = Inl e \<Longrightarrow>
   register_project strptime float w inputs = st (St_error (case e of ValueError ve \<Rightarrow> Input_error ve | _ \<Rightarrow> Unexpected_error e)) w"
  by (simp add: register_project_def split: py_exception.splits)



text \<open>
  C5: when the end date is earlier than the start date, or one of the two date fields
  does not parse, registration only reports an error: no project is appended, nothing
  is saved, no file is touched.
\<close>

theorem register_rejects_bad_dates:
  assumes "inputs ''Start Date'' = Some s" and "inputs ''End Date'' = Some e"
      and "strptime s = None \<or> strptime e = None \<or>
           (\<exists>sd ed. strptime s = Some sd \<and> strptime e = Some ed \<and> date_less ed sd)"
  shows "\<exists>err. register_project strptime float w inputs = w\<lparr>ui := ui w @ [St_error err]\<rparr>"
  using assms
  by (auto simp: register_project_def register_try_def st_def split: option.splits)

lemma form_fields:
  "form s e b ''Project Name'' = Some ''A''"
  "form s e b ''Project ID'' = Some ''P1''"
  "form s e b ''Client Name'' = Some ''Civitas''"
  "form s e b ''Start Date'' = Some s"
  "form s e b ''End Date'' = Some e"
  "form s e b ''Budget (RM)'' = Some b"
  by (simp_all add: form_def)


theorem register_rejects_bad_dates_witness:
  "register_project sample_strptime sample_float world_a (form ''2024-06-01'' ''2024-01-01'' ''10000'')
     = world_a\<lparr>ui := [St_error (Input_error End_before_start)]\<rparr> \<and>
   register_project sample_strptime sample_float world_a (form ''soon'' ''2024-01-01'' ''10000'')
     = world_a\<lparr>ui := [St_error (Input_error (Time_data ''soon''))]\<rparr>"
proof -
  let ?late = "form ''2024-06-01'' ''2024-01-01'' ''10000''"
  let ?soon = "form ''soon'' ''2024-01-01'' ''10000''"
  have l: "sample_strptime ''2024-06-01'' = None \<or> sample_strptime ''2024-01-01'' = None \<or>
      (\<exists>sd ed. sample_strptime ''2024-06-01'' = Some sd \<and> sample_strptime ''2024-01-01'' = Some ed
         \<and> date_less ed sd)"
    by (simp add: sample_strptime_def date_less_def)
  have s: "sample_strptime ''soon'' = None \<or> sample_strptime ''2024-01-01'' = None \<or>
      (\<exists>sd ed. sample_strptime ''soon'' = Some sd \<and> sample_strptime ''2024-01-01'' = Some ed
         \<and> date_less ed sd)"
    by (simp add: sample_strptime_def)
  from register_rejects_bad_dates [where inputs = ?late and strptime = sample_strptime
      and float = sample_float and w = world_a, OF form_fields(4) form_fields(5) l]
  obtain e1 where e1: "register_project sample_strptime sample_float world_a ?late
      = world_a\<lparr>ui := ui world_a @ [St_error e1]\<rparr>" by blast
  from register_rejects_bad_dates [where inputs = ?soon and strptime = sample_strptime
      and float = sample_float and w = world_a, OF form_fields(4) form_fields(5) s]
  obtain e2 where e2: "register_project sample_strptime sample_float world_a ?soon
      = world_a\<lparr>ui := ui world_a @ [St_error e2]\<rparr>" by blast
  have u1: "ui (register_project sample_strptime sample_float world_a ?late)
      = [St_error (Input_error End_before_start)]"
    by (simp add: register_project_def register_try_def form_fields sample_strptime_def
        date_less_def st_def world_a_def)
  have u2: "ui (register_project sample_strptime sample_float world_a ?soon)
      = [St_error (Input_error (Time_data ''soon''))]"
    by (simp add: register_project_def register_try_def form_fields sample_strptime_def
        st_def world_a_def)
  from e1 u1 have "e1 = Input_error End_before_start" by (simp add: world_a_def)
  moreover from e2 u2 have "e2 = Input_error (Time_data ''soon'')" by (simp add: world_a_def)
  ultimately show ?thesis using e1 e2 by (simp add: world_a_def)
qed



section \<open>Claims and unknown projects: results\<close>

lemma manage_tasks_loop_no_match:
  "\<forall>j \<in> set js. id' (projects w ! j) \<noteq> project_id \<Longrightarrow> manage_tasks_loop f project_id js w = w"
  by (induction js) simp_all

lemma manage_interim_claims_loop_no_match:
  "\<forall>j \<in> set js. id' (projects w ! j) \<noteq> project_id \<Longrightarrow>
   manage_interim_claims_loop f project_id js w = Inr w"
  by (induction js) simp_all

lemma upload_loop_no_match:
  "\<forall>j \<in> set js. id' (projects w ! j) \<noteq> project_id \<Longrightarrow> upload_loop project_id d js w = w"
  by (induction js) simp_all

text \<open>
  C10: when no project of the list has the given id, task management, claims management
  and document upload leave the whole state as it is: no project changes, nothing is
  saved or written, nothing is shown, no error is reported, no exception is raised.
\<close>

theorem unknown_project_no_op:
  assumes "\<forall>p \<in> set (projects w). id' p \<noteq> project_id"
  shows "manage_tasks tf w project_id = w \<and>
         manage_interim_claims cf w project_id = Inr w \<and>
         upload_project_document w project_id document_file = w"
proof -
  have "\<forall>j \<in> set [0..<length (projects w)]. id' (projects w ! j) \<noteq> project_id"
    using assms by simp
  then show ?thesis
    by (simp only: manage_tasks_def manage_interim_claims_def upload_project_document_def
        manage_tasks_loop_no_match manage_interim_claims_loop_no_match upload_loop_no_match)
qed

theorem unknown_project_no_op_witness:
  "manage_tasks new_task world_a ''P2'' = world_a \<and>
   manage_interim_claims (claim_of 3000) world_a ''P2'' = Inr world_a \<and>
   upload_project_document world_a ''P2'' (plan_pdf [37, 80, 68, 70]) = world_a"
proof -
  have "\<forall>p \<in> set (projects world_a). id' p \<noteq> ''P2''"
    by (simp add: world_a_def project_a_def)
  then show ?thesis by (rule unknown_project_no_op)
qed



text \<open>
  C2: adding a claim whose amount exceeds the budget of the project reports the error
  and changes nothing else: the list of projects, with every budget and every list of
  claims, is the same, and so are the saved list and the files.
\<close>

theorem add_claim_over_budget:
  assumes "i < length (projects w)" and "budget (projects w ! i) < claim_amount f"
  shows "projects (add_interim_claim f i w) = projects w \<and>
         pkl (add_interim_claim f i w) = pkl w \<and>
         files (add_interim_claim f i w) = files w \<and>
         ui (add_interim_claim f i w) = ui w @ [St_error Exceeds_budget]"
  using assms by (simp add: add_interim_claim_def Let_def st_def)

theorem add_claim_over_budget_witness:
  "projects (add_interim_claim (claim_of 10001) 0 world_a) = [project_a] \<and>
   pkl (add_interim_claim (claim_of 10001) 0 world_a) = Some [project_a] \<and>
   ui (add_interim_claim (claim_of 10001) 0 world_a) = [St_error Exceeds_budget]"
proof -
  have i: "0 < length (projects world_a)" by (simp add: world_a_def)
  have a: "budget (projects world_a ! 0) < claim_amount (claim_of 10001)"
    by (simp add: world_a_def project_a_def claim_of_def)
  show ?thesis
    using add_claim_over_budget [OF i a] by (simp add: world_a_def)
qed

text \<open>
  C7: updating the status of the claim at a valid position overwrites the status of that
  claim alone.  Its amount and date, every other claim, the number of claims, the budget
  and all other fields of the project, and every other project are unchanged, whatever
  the old and the new status are.
\<close>

theorem update_status_frame:
  assumes "i < length (projects w)" and "j < length (interim_claims (projects w ! i))"
  shows "\<exists>w'. update_claim_status f i j w = Inr w' \<and>
           length (projects w') = length (projects w) \<and>
           (\<forall>k < length (projects w). k \<noteq> i \<longrightarrow> projects w' ! k = projects w ! k) \<and>
           (projects w' ! i)\<lparr>interim_claims := interim_claims (projects w ! i)\<rparr> = projects w ! i \<and>
           budget (projects w' ! i) = budget (projects w ! i) \<and>
           length (interim_claims (projects w' ! i)) = length (interim_claims (projects w ! i)) \<and>
           (\<forall>k < length (interim_claims (projects w ! i)). k \<noteq> j \<longrightarrow>
              interim_claims (projects w' ! i) ! k = interim_claims (projects w ! i) ! k) \<and>
           interim_claims (projects w' ! i) ! j =
             \<lparr>amount = amount (interim_claims (projects w ! i) ! j),
              date = date (interim_claims (projects w ! i) ! j),
              status = updated_status f\<rparr>"
  using assms by (simp add: update_claim_status_def Let_def st_def save_projects_def)

theorem update_status_frame_witness:
  "\<exists>w'. update_claim_status (set_status 0 Rejected) 0 0 (add_interim_claim (claim_of 3000) 0 world_a) = Inr w' \<and>
     interim_claims (projects w' ! 0) = [\<lparr>amount = 3000, date = february, status = Rejected\<rparr>] \<and>
     budget (projects w' ! 0) = 7000"
proof -
  let ?w = "add_interim_claim (claim_of 3000) 0 world_a"
  have p: "projects ?w = [project_a\<lparr>interim_claims := [\<lparr>amount = 3000, date = february, status = Pending\<rparr>], budget := 7000\<rparr>]"
    by (simp add: add_interim_claim_def Let_def st_def save_projects_def world_a_def project_a_def claim_of_def)
  have i: "0 < length (projects ?w)" by (simp add: p)
  have j: "0 < length (interim_claims (projects ?w ! 0))" by (simp add: p)
  from update_status_frame [OF i j, of "set_status 0 Rejected"]
  obtain w' where w': "update_claim_status (set_status 0 Rejected) 0 0 ?w = Inr w'"
    "budget (projects w' ! 0) = budget (projects ?w ! 0)"
    "length (interim_claims (projects w' ! 0)) = length (interim_claims (projects ?w ! 0))"
    "interim_claims (projects w' ! 0) ! 0 =
       \<lparr>amount = amount (interim_claims (projects ?w ! 0) ! 0),
        date = date (interim_claims (projects ?w ! 0) ! 0),
        status = updated_status (set_status 0 Rejected)\<rparr>"
    by blast
  from w'(3) have "length (interim_claims (projects w' ! 0)) = 1" by (simp add: p)
  then obtain c where c: "interim_claims (projects w' ! 0) = [c]"
    by (cases "interim_claims (projects w' ! 0)") auto
  with w'(4) have "c = \<lparr>amount = 3000, date = february, status = Rejected\<rparr>"
    by (simp add: p set_status_def)
  with c w'(1,2) show ?thesis by (simp add: p)
qed

section \<open>The claims page when one project has the id\<close>

text \<open>
  When exactly one project of the list has the given id, the loop of
  \<open>manage_interim_claims\<close> runs the block once, for that project: adding a claim
  and updating a status, as described above, are what the page does.
\<close>

lemma manage_interim_claims_loop_append:
  "manage_interim_claims_loop f project_id (js @ ks) w =
     (case manage_interim_claims_loop f project_id js w of
        Inl e \<Rightarrow> Inl e
      | Inr w' \<Rightarrow> manage_interim_claims_loop f project_id ks w')"
  by (induction js arbitrary: w) (simp_all split: sum.splits)

lemma add_interim_claim_others:
  "k \<noteq> i \<Longrightarrow> projects (add_interim_claim f i w) ! k = projects w ! k"
  by (simp add: add_interim_claim_def Let_def st_def save_projects_def)

lemma update_claim_status_others:
  "k \<noteq> i \<Longrightarrow> projects (result_world (update_claim_status f i j w)) ! k = projects w ! k"
  by (simp add: update_claim_status_def result_world_def Let_def st_def save_projects_def)

lemma manage_interim_claims_body_others:
  assumes "k \<noteq> i"
  shows "projects (result_world (manage_interim_claims_body f i w)) ! k = projects w ! k"
proof -
  let ?w1 = "st (St_subheader ''Manage Interim Claims'') w"
  let ?w2 = "if add_claim f then add_interim_claim f i ?w1 else ?w1"
  let ?w3 = "st (St_subheader ''Interim Claims'') ?w2"
  let ?w4 = "if interim_claims (projects ?w3 ! i) \<noteq> []
             then st (St_write_claims (interim_claims (projects ?w3 ! i))) ?w3
             else st (St_write ''No claims available yet.'') ?w3"
  let ?w5 = "st (St_subheader ''Update Claim Status'') ?w4"
  have w5: "projects ?w5 ! k = projects w ! k"
    using assms by (simp add: st_def add_interim_claim_others)
  have r: "result_world (manage_interim_claims_body f i w) =
      (case claim_to_update f of None \<Rightarrow> ?w5
       | Some j \<Rightarrow> if update_status f then result_world (update_claim_status f i j ?w5) else ?w5)"
    by (simp add: manage_interim_claims_body_def Let_def result_world_def split: option.splits)
  show ?thesis
  proof (cases "claim_to_update f")
    case None
    then show ?thesis using r w5 by simp
  next
    case (Some j)
    then show ?thesis
      using r w5 update_claim_status_others [OF assms, of f j ?w5] by simp
  qed
qed

lemma manage_interim_claims_single:
  assumes "i < length (projects w)" and "id' (projects w ! i) = project_id"
      and "\<forall>k < length (projects w). k \<noteq> i \<longrightarrow> id' (projects w ! k) \<noteq> project_id"
  shows "manage_interim_claims f w project_id = manage_interim_claims_body f i w"
proof -
  let ?n = "length (projects w)"
  have "[0..<i + (?n - i)] = [0..<i] @ [i..<i + (?n - i)]"
    by (rule upt_add_eq_append) simp
  moreover have "[i..<?n] = i # [Suc i..<?n]"
    using assms(1) by (rule upt_conv_Cons)
  ultimately have split: "[0..<?n] = [0..<i] @ i # [Suc i..<?n]"
    using assms(1) by simp
  have pre: "manage_interim_claims_loop f project_id [0..<i] w = Inr w"
    using assms(1,3) by (intro manage_interim_claims_loop_no_match) simp
  show ?thesis
  proof (cases "manage_interim_claims_body f i w")
    case (Inl e)
    then show ?thesis
      using assms(2) pre
      by (simp add: manage_interim_claims_def split manage_interim_claims_loop_append)
  next
    case (Inr w')
    then have w': "result_world (manage_interim_claims_body f i w) = w'"
      by (simp add: result_world_def)
    have "\<forall>j \<in> set [Suc i..<?n]. id' (projects w' ! j) \<noteq> project_id"
    proof
      fix j assume "j \<in> set [Suc i..<?n]"
      then have j: "j \<noteq> i" "j < ?n" by auto
      from manage_interim_claims_body_others [OF j(1), of f w] w'
      have "projects w' ! j = projects w ! j" by simp
      then show "id' (projects w' ! j) \<noteq> project_id" using assms(3) j by simp
    qed
    then have post: "manage_interim_claims_loop f project_id [Suc i..<?n] w' = Inr w'"
      by (rule manage_interim_claims_loop_no_match)
    show ?thesis
      using assms(2) pre post Inr
      by (simp add: manage_interim_claims_def split manage_interim_claims_loop_append)
  qed
qed

lemma claims_page_adds:
  assumes "i < length (projects w)" and "id' (projects w ! i) = project_id"
      and "\<forall>k < length (projects w). k \<noteq> i \<longrightarrow> id' (projects w ! k) \<noteq> project_id"
      and "add_claim f" and "\<not> update_status f"
      and "claim_amount f \<le> budget (projects w ! i)"
  shows "\<exists>w'. manage_interim_claims f w project_id = Inr w' \<and>
           projects w' = (projects w)[i := (projects w ! i)
              \<lparr>interim_claims := interim_claims (projects w ! i)
                  @ [\<lparr>amount = claim_amount f, date = claim_date f, status = claim_status f\<rparr>],
               budget := budget (projects w ! i) - claim_amount f\<rparr>] \<and>
           pkl w' = Some (projects w') \<and> files w' = files w"
  using assms(1,4,5,6)
  by (simp add: manage_interim_claims_single [OF assms(1,2,3)] manage_interim_claims_body_def
      add_interim_claim_def Let_def st_def save_projects_def split: option.splits)

lemma claims_page_rejects:
  assumes "i < length (projects w)" and "id' (projects w ! i) = project_id"
      and "\<forall>k < length (projects w). k \<noteq> i \<longrightarrow> id' (projects w ! k) \<noteq> project_id"
      and "add_claim f" and "\<not> update_status f"
      and "budget (projects w ! i) < claim_amount f"
  shows "\<exists>w'. manage_interim_claims f w project_id = Inr w' \<and>
           projects w' = projects w \<and> pkl w' = pkl w \<and> files w' = files w \<and>
           St_error Exceeds_budget \<in> set (ui w')"
  using assms(1,4,5,6)
  by (simp add: manage_interim_claims_single [OF assms(1,2,3)] manage_interim_claims_body_def
      add_interim_claim_def Let_def st_def save_projects_def split: option.splits)

lemma claims_page_updates:
  assumes "i < length (projects w)" and "id' (projects w ! i) = project_id"
      and "\<forall>k < length (projects w). k \<noteq> i \<longrightarrow> id' (projects w ! k) \<noteq> project_id"
      and "\<not> add_claim f" and "update_status f" and "claim_to_update f = Some j"
      and "j < length (interim_claims (projects w ! i))"
  shows "\<exists>w'. manage_interim_claims f w project_id = Inr w' \<and>
           projects w' = (projects w)[i := (projects w ! i)
              \<lparr>interim_claims := (interim_claims (projects w ! i))
                  [j := (interim_claims (projects w ! i) ! j)\<lparr>status := updated_status f\<rparr>]\<rparr>] \<and>
           pkl w' = Some (projects w') \<and> files w' = files w"
proof -
  from assms(7) have "interim_claims (projects w ! i) \<noteq> []" by auto
  with assms(1,4,5,6,7) show ?thesis
    by (simp add: manage_interim_claims_single [OF assms(1,2,3)] manage_interim_claims_body_def
        update_claim_status_def Let_def st_def save_projects_def)
qed

section \<open>Documents: results\<close>







section \<open>Budget conservation\<close>



lemma keeps_ledgers_same_projects: "projects w' = projects w \<Longrightarrow> keeps_ledgers w w'"
  by (simp add: keeps_ledgers_def)

















end
